theory Spec2Isabelle
  imports
    Main
    "HOL-Library.AList"
    "HOL-Library.Char_ord"
    "HOL-Library.List_Lexorder"
    "HOL-Library.Product_Lexorder"
begin

section \<open>The quiz leaderboard service of \<^verbatim>\<open>src/main.py\<close>\<close>

text \<open>
  The service keeps its ranking in one Redis sorted set (\<^verbatim>\<open>LEADERBOARD_KEY\<close>) and its
  summary in one Redis hash (\<^verbatim>\<open>METADATA_KEY\<close>). The handlers of \<^verbatim>\<open>main.py\<close> are
  translated one by one; the Redis commands they issue are modelled after the documented
  behaviour of each command, on a server state that holds exactly the two keys the
  program uses.
\<close>

subsection \<open>Constants\<close>

datatype key = LEADERBOARD_KEY | METADATA_KEY

definition LEADERBOARD_EXPIRE :: nat where
  "LEADERBOARD_EXPIRE = 60 * 60 * 24"

subsection \<open>Scores as IEEE doubles\<close>

text \<open>
  A sorted set stores each score as a double. The program only ever writes Python
  integers, so every score in the set is a double whose value is an integer, and the
  model represents it by that integer. \<open>round_double\<close> is the conversion of a
  non-negative integer to the nearest double (53 significant bits, ties to even), again as the
  integer value of the result.
\<close>

type_synonym double = int

function bit_length :: "int \<Rightarrow> nat" where
  "bit_length n = (if n \<le> 0 then 0 else Suc (bit_length (n div 2)))"
  by pat_completeness auto
termination
  by (relation "measure nat") auto

declare bit_length.simps [simp del]

definition round_double :: "int \<Rightarrow> int" where
  "round_double n =
     (if bit_length n \<le> 53 then n
      else
        let e = bit_length n - 53;
            q = n div 2 ^ e;
            r = n mod 2 ^ e;
            half = 2 ^ (e - 1)
        in (if half < r \<or> (r = half \<and> odd q) then q + 1 else q) * 2 ^ e)"

text \<open>
  The client sends the integer in decimal and the server parses it to a double; a
  magnitude that rounds beyond the largest finite double is refused by the server
  (\<^verbatim>\<open>ERR value is not a valid float\<close>), here \<open>None\<close>.
\<close>

definition to_double :: "int \<Rightarrow> double option" where
  "to_double n =
     (let d = round_double \<bar>n\<bar>
      in if 2 ^ 1024 \<le> d then None else Some (if n < 0 then - d else d))"

text \<open>Python's \<^verbatim>\<open>int(x)\<close> of a float with an integer value is that value.\<close>

definition int_of_float :: "double \<Rightarrow> int" where
  "int_of_float d = d"

subsection \<open>The Redis server\<close>

text \<open>
  \<open>zset\<close> is the sorted set at \<^verbatim>\<open>LEADERBOARD_KEY\<close> as member/score pairs (one pair per
  member), \<open>hash\<close> the hash at \<^verbatim>\<open>METADATA_KEY\<close> as field/value pairs. An empty list is a
  key that does not exist. The two \<open>ttl\<close> fields are the seconds each key has left, when
  it has an expiry. \<open>outages\<close> says for each of the next commands whether the server is
  unreachable when it is issued (\<open>True\<close>: the command raises); past the end of the list
  the server is reachable.
\<close>

record redis_server =
  zset :: "(string \<times> double) list"
  zset_ttl :: "nat option"
  hash :: "(string \<times> string) list"
  hash_ttl :: "nat option"
  outages :: "bool list"

definition empty_server :: redis_server where
  "empty_server = \<lparr>zset = [], zset_ttl = None, hash = [], hash_ttl = None, outages = []\<rparr>"

datatype exn = ConnectionError | ResponseError | ValueError

type_synonym 'a io = "redis_server \<Rightarrow> (exn + 'a) \<times> redis_server"

definition return_io :: "'a \<Rightarrow> 'a io" where
  "return_io x srv = (Inr x, srv)"

definition bind_io :: "'a io \<Rightarrow> ('a \<Rightarrow> 'b io) \<Rightarrow> 'b io" where
  "bind_io m f srv =
     (case m srv of
        (Inl e, srv') \<Rightarrow> (Inl e, srv')
      | (Inr x, srv') \<Rightarrow> f x srv')"

text \<open>Issuing one command: it raises when the server is unreachable, and runs otherwise.\<close>

definition command :: "'a io \<Rightarrow> 'a io" where
  "command f srv =
     (case outages srv of
        [] \<Rightarrow> f srv
      | down # rest \<Rightarrow>
          if down then (Inl ConnectionError, srv\<lparr>outages := rest\<rparr>)
          else f (srv\<lparr>outages := rest\<rparr>))"

text \<open>
  The order of a sorted set: by score, and by member (bytewise) among equal scores.
  \<^verbatim>\<open>ZREVRANGE\<close> and \<^verbatim>\<open>ZREVRANK\<close> read it from the highest element to the lowest.
\<close>

definition zkey :: "string \<times> double \<Rightarrow> double \<times> string" where
  "zkey p = (snd p, fst p)"

definition zrev_all :: "(string \<times> double) list \<Rightarrow> (string \<times> double) list" where
  "zrev_all z = rev (sort_key zkey z)"

fun index_of :: "'a \<Rightarrow> 'a list \<Rightarrow> nat option" where
  "index_of x [] = None"
| "index_of x (y # ys) =
     (if x = y then Some 0 else map_option Suc (index_of x ys))"

text \<open>\<^verbatim>\<open>ZADD key member score\<close>: insert the member or replace its score.\<close>

definition zadd :: "string \<Rightarrow> int \<Rightarrow> nat io" where
  "zadd member sc =
     command (\<lambda>srv.
       case to_double sc of
         None \<Rightarrow> (Inl ResponseError, srv)
       | Some d \<Rightarrow>
           (Inr (if member \<in> fst ` set (zset srv) then 0 else 1),
            srv\<lparr>zset := AList.update member d (zset srv)\<rparr>))"

text \<open>\<^verbatim>\<open>EXPIRE key seconds\<close>: set the expiry of an existing key.\<close>

definition expire :: "key \<Rightarrow> nat \<Rightarrow> nat io" where
  "expire k seconds =
     command (\<lambda>srv.
       case k of
         LEADERBOARD_KEY \<Rightarrow>
           if zset srv = [] then (Inr 0, srv)
           else (Inr 1, srv\<lparr>zset_ttl := Some seconds\<rparr>)
       | METADATA_KEY \<Rightarrow>
           if hash srv = [] then (Inr 0, srv)
           else (Inr 1, srv\<lparr>hash_ttl := Some seconds\<rparr>))"

text \<open>\<^verbatim>\<open>ZREVRANK key member\<close>: the 0-based position from the highest score, or nil.\<close>

definition zrevrank :: "string \<Rightarrow> nat option io" where
  "zrevrank member =
     command (\<lambda>srv. (Inr (index_of member (map fst (zrev_all (zset srv)))), srv))"

text \<open>\<^verbatim>\<open>ZSCORE key member\<close>: the score of the member, or nil.\<close>

definition zscore :: "string \<Rightarrow> double option io" where
  "zscore member = command (\<lambda>srv. (Inr (map_of (zset srv) member), srv))"

text \<open>\<^verbatim>\<open>ZCARD key\<close>: the number of members.\<close>

definition zcard :: "nat io" where
  "zcard = command (\<lambda>srv. (Inr (length (zset srv)), srv))"

text \<open>
  \<^verbatim>\<open>ZREVRANGE key start stop WITHSCORES\<close>: both indexes are inclusive, and a negative
  index counts from the end of the set (\<open>-1\<close> is the last element).
\<close>

definition zrange_slice :: "int \<Rightarrow> int \<Rightarrow> 'a list \<Rightarrow> 'a list" where
  "zrange_slice start stop xs =
     (let llen = int (length xs);
          start1 = (if start < 0 then llen + start else start);
          stop1 = (if stop < 0 then llen + stop else stop);
          start2 = (if start1 < 0 then 0 else start1)
      in if stop1 < start2 \<or> llen \<le> start2 then []
         else
           let stop2 = (if llen \<le> stop1 then llen - 1 else stop1)
           in take (nat (stop2 - start2 + 1)) (drop (nat start2) xs))"

definition zrevrange :: "int \<Rightarrow> int \<Rightarrow> (string \<times> double) list io" where
  "zrevrange start stop =
     command (\<lambda>srv. (Inr (zrange_slice start stop (zrev_all (zset srv))), srv))"

text \<open>\<^verbatim>\<open>HSET key field value [field value ...]\<close> and \<^verbatim>\<open>HGETALL key\<close>.\<close>

definition hset :: "(string \<times> string) list \<Rightarrow> nat io" where
  "hset mapping =
     command (\<lambda>srv.
       (Inr (length (filter (\<lambda>f. f \<notin> fst ` set (hash srv)) (remdups (map fst mapping)))),
        srv\<lparr>hash := fold (\<lambda>(f, v). AList.update f v) mapping (hash srv)\<rparr>))"

definition hgetall :: "(string \<times> string) list io" where
  "hgetall = command (\<lambda>srv. (Inr (hash srv), srv))"

text \<open>
  The passing of \<open>t\<close> seconds: a key whose remaining time is used up is deleted, the
  others have less time left.
\<close>

definition ttl_after :: "nat \<Rightarrow> nat option \<Rightarrow> nat option" where
  "ttl_after t ttl =
     (case ttl of None \<Rightarrow> None | Some n \<Rightarrow> if n \<le> t then None else Some (n - t))"

definition expired :: "nat \<Rightarrow> nat option \<Rightarrow> bool" where
  "expired t ttl = (case ttl of None \<Rightarrow> False | Some n \<Rightarrow> n \<le> t)"

definition elapse :: "nat \<Rightarrow> redis_server \<Rightarrow> redis_server" where
  "elapse t srv =
     srv\<lparr>zset := (if expired t (zset_ttl srv) then [] else zset srv),
         zset_ttl := ttl_after t (zset_ttl srv),
         hash := (if expired t (hash_ttl srv) then [] else hash srv),
         hash_ttl := ttl_after t (hash_ttl srv)\<rparr>"

subsection \<open>Python's \<^verbatim>\<open>str\<close> and \<^verbatim>\<open>int\<close> on decimal integers\<close>

text \<open>
  The client writes an integer hash value as its decimal text, and reads every hash value
  back as text (\<^verbatim>\<open>decode_responses=True\<close>). \<open>int_of_str\<close> is \<^verbatim>\<open>int(s)\<close> on the texts
  that \<^verbatim>\<open>str\<close> produces (an optional minus sign and digits); any other text raises
  \<^verbatim>\<open>ValueError\<close>.
\<close>

definition digit_char :: "int \<Rightarrow> char" where
  "digit_char d = char_of (48 + d)"

function str_digits :: "int \<Rightarrow> string" where
  "str_digits n =
     (if n < 10 then [digit_char n] else str_digits (n div 10) @ [digit_char (n mod 10)])"
  by pat_completeness auto
termination
  by (relation "measure nat") auto

declare str_digits.simps [simp del]

definition str_int :: "int \<Rightarrow> string" where
  "str_int n = (if n < 0 then CHR ''-'' # str_digits (- n) else str_digits n)"

definition digit_value :: "char \<Rightarrow> int option" where
  "digit_value c =
     (let n = (of_char c :: int) in if 48 \<le> n \<and> n \<le> 57 then Some (n - 48) else None)"

fun parse_digits :: "int \<Rightarrow> string \<Rightarrow> int option" where
  "parse_digits acc [] = Some acc"
| "parse_digits acc (c # cs) =
     (case digit_value c of None \<Rightarrow> None | Some d \<Rightarrow> parse_digits (10 * acc + d) cs)"

definition int_of_str :: "string \<Rightarrow> exn + int" where
  "int_of_str s =
     (case s of
        [] \<Rightarrow> Inl ValueError
      | c # cs \<Rightarrow>
          if c = CHR ''-'' then
            (if cs = [] then Inl ValueError
             else case parse_digits 0 cs of None \<Rightarrow> Inl ValueError | Some n \<Rightarrow> Inr (- n))
          else case parse_digits 0 s of None \<Rightarrow> Inl ValueError | Some n \<Rightarrow> Inr n)"

subsection \<open>Request and response models\<close>

record UserScoreUpdate =
  username :: string
  score :: int

record LeaderboardEntry =
  entry_username :: string
  entry_score :: int
  entry_rank :: nat

record UserRankResponse =
  user_name :: string
  user_score :: "int option"
  user_rank :: "nat option"

record LeaderboardMetadata =
  total_users :: int
  top_score :: "int option"
  top_user :: "string option"

text \<open>
  The two failures a caller can see: \<open>InvalidScore\<close> is the 422 reply of request
  validation, \<open>Unavailable\<close> the 503 reply every handler raises.
\<close>

datatype http_error = InvalidScore | Unavailable



subsection \<open>The handlers\<close>

text \<open>
  The global \<^verbatim>\<open>redis\<close> is \<open>None\<close> when the connection failed at startup, and otherwise
  the handle of a server. Every handler turns any exception of its \<^verbatim>\<open>try\<close> block into
  the 503 reply; what the server did before the exception stays done.
\<close>

definition lift :: "exn + 'a \<Rightarrow> 'a io" where
  "lift r srv = (r, srv)"

definition respond :: "(exn + 'a) \<times> redis_server \<Rightarrow> (http_error + 'a) \<times> redis_server option" where
  "respond out =
     (case out of
        (Inl e, srv') \<Rightarrow> (Inl Unavailable, Some srv')
      | (Inr x, srv') \<Rightarrow> (Inr x, Some srv'))"

definition update_score ::
  "UserScoreUpdate \<Rightarrow> redis_server option \<Rightarrow> (http_error + UserRankResponse) \<times> redis_server option" where
  "update_score update redis =
     (case redis of
        None \<Rightarrow> (Inl Unavailable, None)
      | Some srv \<Rightarrow>
          respond
            (bind_io (zadd (username update) (score update)) (\<lambda>_.
             bind_io (expire LEADERBOARD_KEY LEADERBOARD_EXPIRE) (\<lambda>_.
             bind_io (zrevrank (username update)) (\<lambda>rank0.
             let rank = map_option (\<lambda>r. r + 1) rank0 in
             bind_io (zscore (username update)) (\<lambda>sc.
             return_io
               \<lparr>user_name = username update,
                user_score =
                  Some (case sc of None \<Rightarrow> 0 | Some d \<Rightarrow> if d = 0 then 0 else int_of_float d),
                user_rank = rank\<rparr>)))) srv))"


definition get_leaderboard ::
  "int \<Rightarrow> redis_server option \<Rightarrow> (http_error + LeaderboardEntry list) \<times> redis_server option" where
  "get_leaderboard top_n redis =
     (case redis of
        None \<Rightarrow> (Inl Unavailable, None)
      | Some srv \<Rightarrow>
          respond
            (bind_io (zrevrange 0 (top_n - 1)) (\<lambda>res.
             return_io
               (map (\<lambda>(idx, (name, sc)).
                       \<lparr>entry_username = name, entry_score = int_of_float sc, entry_rank = idx + 1\<rparr>)
                    (enumerate 0 res))) srv))"

definition get_user_rank ::
  "string \<Rightarrow> redis_server option \<Rightarrow> (http_error + UserRankResponse) \<times> redis_server option" where
  "get_user_rank name redis =
     (case redis of
        None \<Rightarrow> (Inl Unavailable, None)
      | Some srv \<Rightarrow>
          respond
            (bind_io (zrevrank name) (\<lambda>rank.
             bind_io (zscore name) (\<lambda>sc.
             return_io
               \<lparr>user_name = name,
                user_score = map_option int_of_float sc,
                user_rank = map_option (\<lambda>r. r + 1) rank\<rparr>)) srv))"

definition get_metadata ::
  "redis_server option \<Rightarrow> (http_error + LeaderboardMetadata) \<times> redis_server option" where
  "get_metadata redis =
     (case redis of
        None \<Rightarrow> (Inl Unavailable, None)
      | Some srv \<Rightarrow>
          respond
            (bind_io hgetall (\<lambda>meta.
             bind_io (lift (case map_of meta ''total_users'' of
                              None \<Rightarrow> Inr 0
                            | Some v \<Rightarrow> int_of_str v)) (\<lambda>total.
             bind_io (lift (case map_of meta ''top_score'' of
                              None \<Rightarrow> Inr None
                            | Some v \<Rightarrow> if v = [] then Inr None else map_sum id Some (int_of_str v))) (\<lambda>top.
             return_io
               \<lparr>total_users = total,
                top_score = top,
                top_user = map_of meta ''top_user''\<rparr>))) srv))"

text \<open>
  The body of the background task. It returns nothing and logs any exception, so the
  model returns the server state only.
\<close>

definition update_metadata_bg_task :: "redis_server option \<Rightarrow> redis_server option" where
  "update_metadata_bg_task redis =
     (case redis of
        None \<Rightarrow> None
      | Some srv \<Rightarrow>
          Some (snd
            (bind_io zcard (\<lambda>users.
             bind_io (zrevrange 0 0) (\<lambda>top_data.
             let (best_score, best_user) =
                   (case top_data of
                      [] \<Rightarrow> (None, None)
                    | (name, sc) # _ \<Rightarrow> (Some (int_of_float sc), Some name))
             in
             bind_io (hset
                 [(''total_users'', str_int (int users)),
                  (''top_score'', case best_score of None \<Rightarrow> [] | Some v \<Rightarrow> str_int v),
                  (''top_user'', case best_user of None \<Rightarrow> [] | Some u \<Rightarrow> u)]) (\<lambda>_.
             bind_io (expire METADATA_KEY LEADERBOARD_EXPIRE) (\<lambda>_.
             return_io ())))) srv)))"

subsection \<open>The refresh schedule\<close>

text \<open>
  \<^verbatim>\<open>@repeat_every(seconds=30, wait_first=True)\<close> runs, as one task: a sleep of one period
  when \<open>wait_first\<close> is set, and then for ever a call of the function followed by a sleep
  of one period. \<open>repeat_every seconds wait_first n\<close> is what that task does up to the
  end of its \<open>n\<close>-th round.
\<close>

datatype event = Sleep nat | Call

definition repeat_every :: "nat \<Rightarrow> bool \<Rightarrow> nat \<Rightarrow> event list" where
  "repeat_every seconds wait_first n =
     (if wait_first then [Sleep seconds] else []) @ concat (replicate n [Call, Sleep seconds])"

definition update_metadata_schedule :: "nat \<Rightarrow> event list" where
  "update_metadata_schedule n = repeat_every 30 True n"


text \<open>Running a schedule on the service: a sleep lets time pass, a call runs the task body.\<close>

fun run_schedule :: "event list \<Rightarrow> redis_server option \<Rightarrow> redis_server option" where
  "run_schedule [] redis = redis"
| "run_schedule (Sleep d # es) redis = run_schedule es (map_option (elapse d) redis)"
| "run_schedule (Call # es) redis = run_schedule es (update_metadata_bg_task redis)"

subsection \<open>Sequences of submissions\<close>

text \<open>
  A sequence of calls of \<open>update_score\<close>, one after the other on the same service; the
  replies are dropped, and a call that fails does not stop the later ones.
\<close>

definition submit_all :: "UserScoreUpdate list \<Rightarrow> redis_server option \<Rightarrow> redis_server option" where
  "submit_all updates redis = fold (\<lambda>update r. snd (update_score update r)) updates redis"

subsection \<open>What the properties observe\<close>



section \<open>Properties\<close>

subsection \<open>The handlers while the server is reachable\<close>

lemma command_up: "outages srv = [] \<Longrightarrow> command f srv = f srv"
  by (simp add: command_def)

lemma update_nonempty: "AList.update k v al \<noteq> []"
  by (cases al) auto

lemma map_option_int_of_float: "map_option int_of_float x = x"
  by (cases x) (simp_all add: int_of_float_def)

lemma update_score_up:
  assumes "outages srv = []" and "to_double (score u) = Some d"
  shows "update_score u (Some srv) =
    (Inr \<lparr>user_name = username u,
          user_score = Some d,
          user_rank = map_option (\<lambda>r. r + 1)
            (index_of (username u) (map fst (zrev_all (AList.update (username u) d (zset srv)))))\<rparr>,
     Some (srv\<lparr>zset := AList.update (username u) d (zset srv),
               zset_ttl := Some LEADERBOARD_EXPIRE\<rparr>))"
  using assms
  by (simp add: update_score_def respond_def bind_io_def zadd_def expire_def zrevrank_def
      zscore_def return_io_def command_up update_nonempty AList.update_conv' int_of_float_def)

lemma update_score_refused:
  assumes "outages srv = []" and "to_double (score u) = None"
  shows "update_score u (Some srv) = (Inl Unavailable, Some srv)"
  using assms
  by (simp add: update_score_def respond_def bind_io_def zadd_def command_up)

lemma get_user_rank_up:
  assumes "outages srv = []"
  shows "get_user_rank name (Some srv) =
    (Inr \<lparr>user_name = name,
          user_score = map_of (zset srv) name,
          user_rank = map_option (\<lambda>r. r + 1) (index_of name (map fst (zrev_all (zset srv))))\<rparr>,
     Some srv)"
  using assms
  by (simp add: get_user_rank_def respond_def bind_io_def zrevrank_def zscore_def return_io_def
      command_up map_option_int_of_float)

lemma get_leaderboard_up:
  assumes "outages srv = []"
  shows "get_leaderboard top_n (Some srv) =
    (Inr (map (\<lambda>(idx, (name, sc)).
                 \<lparr>entry_username = name, entry_score = sc, entry_rank = idx + 1\<rparr>)
              (enumerate 0 (zrange_slice 0 (top_n - 1) (zrev_all (zset srv))))),
     Some srv)"
  using assms
  by (simp add: get_leaderboard_def respond_def bind_io_def zrevrange_def return_io_def
      command_up int_of_float_def)

lemma index_of_None: "index_of x xs = None \<longleftrightarrow> x \<notin> set xs"
  by (induction xs) auto


lemma set_zrev_all: "set (zrev_all z) = set z"
  by (simp add: zrev_all_def)

lemma length_zrev_all: "length (zrev_all z) = length z"
  by (simp add: zrev_all_def)

lemma map_of_None_iff: "map_of z k = None \<longleftrightarrow> k \<notin> fst ` set z"
  by (simp add: map_of_eq_None_iff)

lemma elapse_outages: "outages (elapse t srv) = outages srv"
  by (simp add: elapse_def)

lemma zset_elapse_subset: "set (zset (elapse t srv)) \<subseteq> set (zset srv)"
  by (simp add: elapse_def)

lemma zset_elapse_expired: "expired t (zset_ttl srv) \<Longrightarrow> zset (elapse t srv) = []"
  by (simp add: elapse_def)

subsection \<open>Validation of a submission\<close>



subsection \<open>Rank of an identity without an entry\<close>

text \<open>
  C7. While the server is reachable, the rank query for an identity that has no entry in
  the index, or whose index has expired after \<open>t\<close> seconds, succeeds and returns a
  result in which score and rank are both absent.
\<close>

theorem unranked_identity_has_absent_fields:
  assumes "outages srv = []"
    and "name \<notin> fst ` set (zset srv) \<or> expired t (zset_ttl srv)"
  shows "get_user_rank name (Some (elapse t srv)) =
    (Inr \<lparr>user_name = name, user_score = None, user_rank = None\<rparr>, Some (elapse t srv))"
proof -
  have absent: "name \<notin> fst ` set (zset (elapse t srv))"
    using assms(2) zset_elapse_subset [of t srv] zset_elapse_expired [of t srv] by auto
  then have "map_of (zset (elapse t srv)) name = None"
    by (simp add: map_of_None_iff)
  moreover have "index_of name (map fst (zrev_all (zset (elapse t srv)))) = None"
    using absent by (simp add: index_of_None set_zrev_all)
  ultimately show ?thesis
    using assms(1) by (simp add: get_user_rank_up elapse_outages)
qed

theorem unranked_identity_has_absent_fields_witness:
  "get_user_rank ''dave''
     (Some (elapse 86400 (empty_server\<lparr>zset := [(''dave'', 5)], zset_ttl := Some 86400\<rparr>))) =
   (Inr \<lparr>user_name = ''dave'', user_score = None, user_rank = None\<rparr>,
    Some (elapse 86400 (empty_server\<lparr>zset := [(''dave'', 5)], zset_ttl := Some 86400\<rparr>)))"
  using unranked_identity_has_absent_fields
    [of "empty_server\<lparr>zset := [(''dave'', 5)], zset_ttl := Some 86400\<rparr>" "''dave''" 86400]
  by (simp add: empty_server_def expired_def)

subsection \<open>Repeating a submission\<close>

text \<open>
  C9. While the server is reachable, submitting the same identity and score a second time
  gives the same reply (score and rank) as the first time and leaves the service in the
  same state, hence with the same ranking.
\<close>

theorem upsert_idempotent:
  assumes "outages srv = []"
  shows "update_score u (snd (update_score u (Some srv))) = update_score u (Some srv)"
proof (cases "to_double (score u)")
  case None
  with assms show ?thesis by (simp add: update_score_refused)
next
  case (Some d)
  let ?srv' = "srv\<lparr>zset := AList.update (username u) d (zset srv),
                   zset_ttl := Some LEADERBOARD_EXPIRE\<rparr>"
  have "outages ?srv' = []" using assms by simp
  from update_score_up [OF this Some] update_score_up [OF assms Some]
  show ?thesis by simp
qed

theorem upsert_idempotent_witness:
  "outages empty_server = [] \<and>
   update_score \<lparr>username = ''alice'', score = 150\<rparr>
     (snd (update_score \<lparr>username = ''alice'', score = 150\<rparr> (Some empty_server))) =
   update_score \<lparr>username = ''alice'', score = 150\<rparr> (Some empty_server)"
  using upsert_idempotent [of empty_server "\<lparr>username = ''alice'', score = 150\<rparr>"]
  by (simp add: empty_server_def)

subsection \<open>Rounding of scores\<close>

lemma bit_length_bound: "n < 2 ^ k \<Longrightarrow> bit_length n \<le> k"
proof (induction k arbitrary: n)
  case 0
  then show ?case by (simp add: bit_length.simps)
next
  case (Suc k)
  show ?case
  proof (cases "n \<le> 0")
    case True
    then show ?thesis by (simp add: bit_length.simps)
  next
    case False
    from Suc.prems have "n div 2 < 2 ^ k" by simp
    from Suc.IH [OF this] False show ?thesis
      by (subst bit_length.simps) simp
  qed
qed

lemma to_double_2_53: "to_double (2 ^ 53) = Some (2 ^ 53)"
  by code_simp

lemma to_double_exact:
  assumes "0 \<le> n" and "n \<le> 2 ^ 53"
  shows "to_double n = Some n"
proof (cases "n = 2 ^ 53")
  case True
  show ?thesis unfolding True by (rule to_double_2_53)
next
  case False
  with assms have lt: "n < 2 ^ 53" by simp
  then have "round_double n = n"
    by (simp add: round_double_def bit_length_bound)
  moreover have "n < 2 ^ 1024" using lt by (rule less_trans) simp
  ultimately show ?thesis using assms(1) by (simp add: to_double_def)
qed

subsection \<open>Submissions on any server\<close>

lemma command_cases:
  "command f srv =
     (if outages srv \<noteq> [] \<and> hd (outages srv) then (Inl ConnectionError, srv\<lparr>outages := tl (outages srv)\<rparr>)
      else f (srv\<lparr>outages := tl (outages srv)\<rparr>))"
proof (cases "outages srv")
  case Nil
  then have same: "srv\<lparr>outages := []\<rparr> = srv" by (cases srv) simp
  show ?thesis by (simp add: command_def Nil same)
next
  case (Cons down rest)
  then show ?thesis by (simp add: command_def)
qed

lemma index_of_update:
  "\<exists>i. index_of k (map fst (zrev_all (AList.update k v al))) = Some i"
proof -
  have "k \<in> set (map fst (zrev_all (AList.update k v al)))"
    by (simp add: set_zrev_all AList.dom_update)
  then show ?thesis
    using index_of_None [of k "map fst (zrev_all (AList.update k v al))"] by (cases "index_of k (map fst (zrev_all (AList.update k v al)))") auto
qed

lemma update_score_success:
  assumes "fst (update_score u redis) = Inr resp"
  shows "\<exists>d r. to_double (score u) = Some d \<and>
           resp = \<lparr>user_name = username u, user_score = Some d, user_rank = Some (r + 1)\<rparr>"
proof (cases redis)
  case None
  with assms show ?thesis by (simp add: update_score_def)
next
  case (Some srv)
  show ?thesis
  proof (cases "to_double (score u)")
    case None
    with assms Some show ?thesis
      by (simp add: update_score_def respond_def bind_io_def zadd_def command_cases split: if_splits)
  next
    case d: (Some d)
    obtain i where i: "index_of (username u) (map fst (zrev_all (AList.update (username u) d (zset srv)))) = Some i"
      using index_of_update by blast
    from assms Some d i show ?thesis
      by (auto simp: update_score_def respond_def bind_io_def zadd_def expire_def zrevrank_def
          zscore_def return_io_def command_cases update_nonempty AList.update_conv' int_of_float_def
          split: if_splits)
  qed
qed

lemma zrev_all_single: "zrev_all [p] = [p]"
  by (simp add: zrev_all_def)

lemma to_double_above_2_53: "to_double 9007199254740993 = Some 9007199254740992"
  by code_simp

subsection \<open>The reply to a submission\<close>

text \<open>
  C10, as amended. Every successful submission is answered with a present rank, at least
  1, and with the submitted score rounded to the nearest double; that is the submitted
  score itself whenever it is at most \<open>2 ^ 53\<close>. While the server is reachable, a
  submission with such a score does succeed.
\<close>

theorem submit_reply_rank_present_score_rounded:
  "(fst (update_score u redis) = Inr resp \<longrightarrow>
      (\<exists>r. user_rank resp = Some r \<and> 1 \<le> r) \<and>
      user_score resp = to_double (score u) \<and>
      (0 \<le> score u \<and> score u \<le> 2 ^ 53 \<longrightarrow> user_score resp = Some (score u))) \<and>
   (outages srv = [] \<and> 0 \<le> score u \<and> score u \<le> 2 ^ 53 \<longrightarrow>
      (\<exists>resp'. fst (update_score u (Some srv)) = Inr resp'))"
proof (intro conjI impI)
  assume ok: "fst (update_score u redis) = Inr resp"
  from update_score_success [OF ok] obtain d r where
    d: "to_double (score u) = Some d" and
    resp: "resp = \<lparr>user_name = username u, user_score = Some d, user_rank = Some (r + 1)\<rparr>"
    by blast
  show "\<exists>r. user_rank resp = Some r \<and> 1 \<le> r" using resp by simp
  show "user_score resp = to_double (score u)" using resp d by simp
  assume "0 \<le> score u \<and> score u \<le> 2 ^ 53"
  then have "to_double (score u) = Some (score u)" by (simp add: to_double_exact)
  with d resp show "user_score resp = Some (score u)" by simp
next
  assume "outages srv = [] \<and> 0 \<le> score u \<and> score u \<le> 2 ^ 53"
  then have "outages srv = []" and "to_double (score u) = Some (score u)"
    by (simp_all add: to_double_exact)
  from update_score_up [OF this]
  show "\<exists>resp'. fst (update_score u (Some srv)) = Inr resp'" by simp
qed

theorem submit_reply_rank_present_score_rounded_witness:
  "fst (update_score \<lparr>username = ''alice'', score = 150\<rparr> (Some empty_server)) =
     Inr \<lparr>user_name = ''alice'', user_score = Some 150, user_rank = Some 1\<rparr> \<and>
   (\<exists>r. user_rank \<lparr>user_name = ''alice'', user_score = Some 150, user_rank = Some 1\<rparr> = Some r \<and> 1 \<le> r) \<and>
   user_score \<lparr>user_name = ''alice'', user_score = Some 150, user_rank = Some 1\<rparr> =
     Some (score \<lparr>username = ''alice'', score = 150\<rparr>) \<and>
   (\<exists>resp'. fst (update_score \<lparr>username = ''alice'', score = 150\<rparr> (Some empty_server)) = Inr resp')"
proof -
  have up: "outages empty_server = []" by (simp add: empty_server_def)
  have d: "to_double (score \<lparr>username = ''alice'', score = 150\<rparr>) = Some 150"
    by (simp add: to_double_exact)
  have run: "fst (update_score \<lparr>username = ''alice'', score = 150\<rparr> (Some empty_server)) =
     Inr \<lparr>user_name = ''alice'', user_score = Some 150, user_rank = Some 1\<rparr>"
    by (subst update_score_up [OF up d]) (simp add: empty_server_def zrev_all_single)
  from submit_reply_rank_present_score_rounded
    [of "\<lparr>username = ''alice'', score = 150\<rparr>" "Some empty_server"
        "\<lparr>user_name = ''alice'', user_score = Some 150, user_rank = Some 1\<rparr>" empty_server]
    run up
  show ?thesis by simp
qed

text \<open>
  C10 as stated fails: the score \<open>2 ^ 53 + 1 = 9007199254740993\<close> is not a double, the
  index stores \<open>9007199254740992\<close>, and the reply carries that value.
\<close>

theorem submit_reply_score_exact_counterexample:
  "fst (update_score \<lparr>username = ''alice'', score = 9007199254740993\<rparr> (Some empty_server)) =
     Inr \<lparr>user_name = ''alice'', user_score = Some 9007199254740992, user_rank = Some 1\<rparr> \<and>
   Some (9007199254740992 :: int) \<noteq> Some (score \<lparr>username = ''alice'', score = 9007199254740993\<rparr>)"
proof
  have up: "outages empty_server = []" by (simp add: empty_server_def)
  have d: "to_double (score \<lparr>username = ''alice'', score = 9007199254740993\<rparr>) =
      Some 9007199254740992"
    by (simp add: to_double_above_2_53)
  show "fst (update_score \<lparr>username = ''alice'', score = 9007199254740993\<rparr> (Some empty_server)) =
     Inr \<lparr>user_name = ''alice'', user_score = Some 9007199254740992, user_rank = Some 1\<rparr>"
    by (subst update_score_up [OF up d]) (simp add: empty_server_def zrev_all_single)
  show "Some (9007199254740992 :: int) \<noteq> Some (score \<lparr>username = ''alice'', score = 9007199254740993\<rparr>)"
    by simp
qed

subsection \<open>The last submission of an identity\<close>







subsection \<open>The refresh schedule\<close>




subsection \<open>The snapshot of an empty index\<close>

lemma str_int_0: "str_int 0 = ''0''"
  by code_simp

lemma int_of_str_0: "int_of_str ''0'' = Inr 0"
  by code_simp

text \<open>
  C6 does not hold of the code. After a tick on an empty index the metadata operation
  returns \<open>total_users = 0\<close> and an absent \<open>top_score\<close>, but \<open>top_user\<close> is the empty
  string, not absent: the task stores \<^verbatim>\<open>''\<close> for both missing fields, and
  \<open>get_metadata\<close> maps the empty text back to \<open>None\<close> for \<open>top_score\<close> only.
\<close>

theorem empty_index_tick_publishes_empty_top_user:
  "fst (get_metadata (update_metadata_bg_task (Some empty_server))) =
     Inr \<lparr>total_users = 0, top_score = None, top_user = Some ''''\<rparr>"
  by (simp add: update_metadata_bg_task_def get_metadata_def bind_io_def return_io_def lift_def
      respond_def zcard_def zrevrange_def hset_def expire_def hgetall_def command_def
      zrange_slice_def zrev_all_def empty_server_def str_int_0 int_of_str_0)

text \<open>
  The same reply comes from a tick on any reachable server whose index is empty, whatever
  the snapshot held before, and from the first tick of the schedule on the empty server.
\<close>

lemma empty_index_tick_metadata:
  assumes "outages srv = []" and "zset srv = []"
  shows "fst (get_metadata (update_metadata_bg_task (Some srv))) =
     Inr \<lparr>total_users = 0, top_score = None, top_user = Some ''''\<rparr>"
  using assms
  by (simp add: update_metadata_bg_task_def get_metadata_def bind_io_def return_io_def lift_def
      respond_def zcard_def zrevrange_def hset_def expire_def hgetall_def command_up
      zrange_slice_def zrev_all_def str_int_0 int_of_str_0 AList.update_conv' update_nonempty)

lemma first_scheduled_tick_on_empty_index:
  "fst (get_metadata (run_schedule (update_metadata_schedule 1) (Some empty_server))) =
     Inr \<lparr>total_users = 0, top_score = None, top_user = Some ''''\<rparr>"
  by (simp add: update_metadata_schedule_def repeat_every_def elapse_def expired_def ttl_after_def
      update_metadata_bg_task_def get_metadata_def bind_io_def return_io_def lift_def
      respond_def zcard_def zrevrange_def hset_def expire_def hgetall_def command_def
      zrange_slice_def zrev_all_def empty_server_def str_int_0 int_of_str_0 LEADERBOARD_EXPIRE_def)

subsection \<open>Top-K with a bound that is not positive, or beyond the count\<close>

lemma submit_all_Nil: "submit_all [] redis = redis"
  by (simp add: submit_all_def)

lemma submit_all_Cons_up:
  assumes "outages srv = []" and "to_double (score u) = Some d"
  shows "submit_all (u # us) (Some srv) =
     submit_all us (Some (srv\<lparr>zset := AList.update (username u) d (zset srv),
                               zset_ttl := Some LEADERBOARD_EXPIRE\<rparr>))"
  by (simp add: submit_all_def update_score_up [OF assms])

lemma zrev_all_two: "zrev_all [(''alice'', 150), (''bob'', 200)] = [(''bob'', 200), (''alice'', 150)]"
  by code_simp

text \<open>
  C3 does not hold of the code. For \<open>top = 0\<close> the handler asks for the range \<open>0 .. -1\<close>,
  which for \<^verbatim>\<open>ZREVRANGE\<close> is the whole set: the reply lists every participant instead
  of none.
\<close>

theorem top_zero_lists_everyone:
  "fst (get_leaderboard 0
         (submit_all [\<lparr>username = ''alice'', score = 150\<rparr>, \<lparr>username = ''bob'', score = 200\<rparr>]
            (Some empty_server))) =
     Inr [\<lparr>entry_username = ''bob'', entry_score = 200, entry_rank = 1\<rparr>,
          \<lparr>entry_username = ''alice'', entry_score = 150, entry_rank = 2\<rparr>]"
proof -
  have "submit_all [\<lparr>username = ''alice'', score = 150\<rparr>, \<lparr>username = ''bob'', score = 200\<rparr>]
            (Some empty_server) =
        Some (empty_server\<lparr>zset := [(''alice'', 150), (''bob'', 200)],
                           zset_ttl := Some LEADERBOARD_EXPIRE\<rparr>)"
    by (simp add: submit_all_Cons_up submit_all_Nil to_double_exact empty_server_def)
  then show ?thesis
    by (simp add: get_leaderboard_up empty_server_def zrev_all_two zrange_slice_def)
qed

text \<open>
  The other half of C3 holds: a bound greater than the number of participants returns
  all entries, in the order of the index, ranked from 1.
\<close>

lemma zrange_slice_beyond:
  assumes "int (length xs) < k"
  shows "zrange_slice 0 (k - 1) xs = xs"
  using assms by (cases xs) (auto simp: zrange_slice_def Let_def)



lemma leaderboard_beyond_count_lists_all:
  assumes "outages srv = []" and "int (length (zset srv)) < k"
  shows "fst (get_leaderboard k (Some srv)) =
     Inr (map (\<lambda>(idx, (name, sc)).
                 \<lparr>entry_username = name, entry_score = sc, entry_rank = idx + 1\<rparr>)
              (enumerate 0 (zrev_all (zset srv))))"
  using assms by (simp add: get_leaderboard_up zrange_slice_beyond length_zrev_all)

subsection \<open>Failures\<close>
















subsection \<open>The order of the ranking\<close>
















end
